theory Spec2Isabelle
  imports Complex_Main "HOL-Library.Sublist" "HOL-Library.Multiset"
begin

section \<open>Python strings: code points, case mapping, stripping, containment\<close>

text \<open>
  Searchable text (queries, words of a page, cell values) is a Python \<open>str\<close>: a sequence
  of Unicode code points, here a list of naturals. File names and paths are only ever
  compared and concatenated; they are byte strings (\<open>string\<close>).
\<close>

type_synonym pystr = "nat list"

text \<open>
  \<open>str.isspace\<close> per code point: the characters \<open>str.strip()\<close> removes. The list is
  the complete Unicode whitespace set that Python uses.
\<close>

definition py_isspace :: "nat \<Rightarrow> bool" where
  "py_isspace c \<longleftrightarrow>
     (9 \<le> c \<and> c \<le> 13) \<or> (28 \<le> c \<and> c \<le> 32) \<or> c = 133 \<or> c = 160 \<or> c = 5760 \<or>
     (8192 \<le> c \<and> c \<le> 8202) \<or> c = 8232 \<or> c = 8233 \<or> c = 8239 \<or> c = 8287 \<or> c = 12288"

text \<open>
  \<open>str.lower()\<close> and \<open>str.upper()\<close>, code point by code point, with Unicode's full case
  mapping (one code point may map to several). The tables are exact for U+0000 to U+00FF
  (Basic Latin and Latin-1 Supplement); the model leaves code points above U+00FF
  unchanged, where Python maps many of them.
\<close>

definition lower_cp :: "nat \<Rightarrow> pystr" where
  "lower_cp c =
     (if 65 \<le> c \<and> c \<le> 90 then [c + 32]
      else if 192 \<le> c \<and> c \<le> 222 \<and> c \<noteq> 215 then [c + 32]
      else [c])"

definition upper_cp :: "nat \<Rightarrow> pystr" where
  "upper_cp c =
     (if 97 \<le> c \<and> c \<le> 122 then [c - 32]
      else if c = 181 then [924]
      else if c = 223 then [83, 83]
      else if 224 \<le> c \<and> c \<le> 254 \<and> c \<noteq> 247 then [c - 32]
      else if c = 255 then [376]
      else [c])"

definition py_lower :: "pystr \<Rightarrow> pystr" where
  "py_lower s = concat (map lower_cp s)"

definition py_upper :: "pystr \<Rightarrow> pystr" where
  "py_upper s = concat (map upper_cp s)"

definition py_strip :: "pystr \<Rightarrow> pystr" where
  "py_strip s = rev (dropWhile py_isspace (rev (dropWhile py_isspace s)))"

text \<open>\<open>q in s\<close> on strings: \<open>q\<close> occurs in \<open>s\<close> as a contiguous substring.\<close>

definition py_in :: "pystr \<Rightarrow> pystr \<Rightarrow> bool" where
  "py_in q s = sublist q s"

definition is_ascii :: "pystr \<Rightarrow> bool" where
  "is_ascii s = list_all (\<lambda>c. c < 128) s"

section \<open>Match location\<close>

subsection \<open>Page-oriented documents (\<open>pdf_handler.find_matches_in_pdf\<close>)\<close>

text \<open>
  A word as \<open>page.extract_words()\<close> returns it: a dictionary with an optional \<open>text\<close>
  and four coordinates. Coordinates are Python floats; they are modelled as exact
  rationals, so rounding of floating-point arithmetic is outside the model.
\<close>

record word =
  w_text :: "pystr option"
  w_x0 :: rat
  w_top :: rat
  w_x1 :: rat
  w_bottom :: rat

record match =
  m_page :: nat
  m_text :: pystr
  m_x0 :: rat
  m_top :: rat
  m_x1 :: rat
  m_bottom :: rat

text \<open>\<open>(w.get("text") or "").strip()\<close>\<close>

definition word_text :: "word \<Rightarrow> pystr" where
  "word_text w = py_strip (case w_text w of None \<Rightarrow> [] | Some t \<Rightarrow> t)"

definition match_of_word :: "nat \<Rightarrow> word \<Rightarrow> match" where
  "match_of_word pnum w =
     \<lparr>m_page = pnum, m_text = word_text w, m_x0 = w_x0 w, m_top = w_top w,
      m_x1 = w_x1 w, m_bottom = w_bottom w\<rparr>"

text \<open>The inner loop over the words of page \<open>pnum\<close>, appending to \<open>matches\<close>.\<close>

fun scan_words :: "pystr \<Rightarrow> nat \<Rightarrow> word list \<Rightarrow> match list \<Rightarrow> match list" where
  "scan_words q pnum [] matches = matches"
| "scan_words q pnum (w # ws) matches =
     (if py_in q (py_lower (word_text w))
      then scan_words q pnum ws (matches @ [match_of_word pnum w])
      else scan_words q pnum ws matches)"

text \<open>The outer loop \<open>for pnum, page in enumerate(pdf.pages)\<close>; the opened document is given
  by the word list of each page (\<open>page.extract_words() or []\<close>).\<close>

fun scan_pages :: "pystr \<Rightarrow> nat \<Rightarrow> word list list \<Rightarrow> match list \<Rightarrow> match list" where
  "scan_pages q pnum [] matches = matches"
| "scan_pages q pnum (ws # rest) matches =
     scan_pages q (Suc pnum) rest (scan_words q pnum ws matches)"

definition find_matches_in_pdf :: "word list list \<Rightarrow> pystr \<Rightarrow> match list" where
  "find_matches_in_pdf pages_words query =
     (let q = py_strip (py_lower query) in scan_pages q 0 pages_words [])"

subsection \<open>Grid-oriented documents (\<open>excel_handler.find_matches_in_sheet\<close>)\<close>

text \<open>
  A worksheet as the locator reads it: \<open>max_row\<close>, \<open>max_column\<close> and, for each 1-based
  (row, column), the cell's value rendered by \<open>str(val)\<close>, or \<open>None\<close> for an empty cell.
\<close>

record worksheet =
  max_row :: nat
  max_column :: nat
  cell_value :: "nat \<Rightarrow> nat \<Rightarrow> pystr option"

fun scan_cols :: "pystr \<Rightarrow> worksheet \<Rightarrow> nat \<Rightarrow> nat list \<Rightarrow> (nat \<times> nat) list \<Rightarrow> (nat \<times> nat) list" where
  "scan_cols q ws r [] matches = matches"
| "scan_cols q ws r (c # cs) matches =
     (case cell_value ws r c of
        None \<Rightarrow> scan_cols q ws r cs matches
      | Some v \<Rightarrow>
          if py_in q (py_lower v) then scan_cols q ws r cs (matches @ [(r, c)])
          else scan_cols q ws r cs matches)"

fun scan_rows :: "pystr \<Rightarrow> worksheet \<Rightarrow> nat list \<Rightarrow> (nat \<times> nat) list \<Rightarrow> (nat \<times> nat) list" where
  "scan_rows q ws [] matches = matches"
| "scan_rows q ws (r # rs) matches =
     scan_rows q ws rs (scan_cols q ws r [1 ..< max_column ws + 1] matches)"

definition find_matches_in_sheet :: "worksheet \<Rightarrow> pystr \<Rightarrow> (nat \<times> nat) list" where
  "find_matches_in_sheet ws query =
     (let q = py_strip (py_lower query) in scan_rows q ws [1 ..< max_row ws + 1] [])"

subsection \<open>Single images (\<open>image_handler.extract_boxes\<close>)\<close>

text \<open>
  The OCR result \<open>data\<close> is a table of parallel columns; row \<open>i\<close> is
  (\<open>text[i]\<close>, \<open>left[i]\<close>, \<open>top[i]\<close>, \<open>width[i]\<close>, \<open>height[i]\<close>).
  The query is lower-cased but not stripped here.
\<close>

type_synonym rect = "int \<times> int \<times> int \<times> int"

type_synonym ocr_row = "pystr \<times> int \<times> int \<times> int \<times> int"

fun scan_ocr :: "pystr \<Rightarrow> ocr_row list \<Rightarrow> rect list \<Rightarrow> rect list" where
  "scan_ocr q [] boxes = boxes"
| "scan_ocr q ((t, x, y, w, h) # rows) boxes =
     (let word = py_strip t in
      if word = [] then scan_ocr q rows boxes
      else if py_in q (py_lower word) then scan_ocr q rows (boxes @ [(x, y, x + w, y + h)])
      else scan_ocr q rows boxes)"

definition extract_boxes :: "ocr_row list \<Rightarrow> pystr \<Rightarrow> rect list" where
  "extract_boxes data query = (let q = py_lower query in scan_ocr q data [])"

section \<open>Rasters, files and exceptions\<close>

text \<open>
  A raster image is its pixel size together with the outline rectangles drawn on it so
  far, in drawing order: each \<open>draw.rectangle(box, outline=stroke)\<close> call of the imaging
  library adds one single-pixel outline. The library's own validation of a box (some
  versions reject a box whose right or lower edge precedes the left or upper one) is not
  modelled. The file system maps a path to the image or the multi-page document saved
  there.
\<close>

type_synonym colour = string

type_synonym path = string

record image =
  img_size :: "int \<times> int"
  outlines :: "(rect \<times> colour) list"

datatype file_content = Png image | Pdf "image list"

type_synonym files = "path \<rightharpoonup> file_content"

datatype exn =
    ZeroDivisionError
  | IndexError
  | KeyError
  | FileNotFoundError
  | UnidentifiedImageError
  | CollaboratorError string

text \<open>What the handlers print when they catch an exception.\<close>

datatype event =
    Draw_rect_failed exn
  | Error_rendering_sheet string exn
  | Error_creating_combined exn

record world =
  files :: files
  log :: "event list"

text \<open>\<open>out_dir / name\<close> and \<open>str(n)\<close> for a non-negative integer.\<close>

definition path_join :: "path \<Rightarrow> string \<Rightarrow> path" where
  "path_join out_dir name = out_dir @ ''/'' @ name"

definition digit_char :: "nat \<Rightarrow> char" where
  "digit_char d = ''0123456789'' ! d"

function str_nat :: "nat \<Rightarrow> string" where
  "str_nat n = (if n < 10 then [digit_char n] else str_nat (n div 10) @ [digit_char (n mod 10)])"
  by pat_completeness auto
termination
  by (relation "measure id") auto

section \<open>Coordinate mapping and box drawing\<close>

text \<open>\<open>int(x)\<close> on a float: truncation toward zero.\<close>

definition py_int :: "rat \<Rightarrow> int" where
  "py_int x = (if x < 0 then \<lceil>x\<rceil> else \<lfloor>x\<rfloor>)"

text \<open>\<open>range(n)\<close>: empty when \<open>n \<le> 0\<close>.\<close>

definition py_range :: "int \<Rightarrow> int list" where
  "py_range n = [0 .. n - 1]"

definition rectangle :: "image \<Rightarrow> rect \<Rightarrow> colour \<Rightarrow> image" where
  "rectangle img box stroke = img\<lparr>outlines := outlines img @ [(box, stroke)]\<rparr>"

text \<open>The shared inner loop
  \<open>for w in range(stroke_width): draw.rectangle([x0-w, y0-w, x1+w, y1+w], outline=stroke)\<close>.\<close>

fun stroke_passes :: "image \<Rightarrow> rect \<Rightarrow> colour \<Rightarrow> int list \<Rightarrow> image" where
  "stroke_passes img box stroke [] = img"
| "stroke_passes img (x0, y0, x1, y1) stroke (w # ws) =
     stroke_passes (rectangle img (x0 - w, y0 - w, x1 + w, y1 + w) stroke) (x0, y0, x1, y1) stroke ws"

subsection \<open>\<open>pdf_handler.draw_fallback\<close>\<close>

fun fallback_rects :: "rat \<Rightarrow> rat \<Rightarrow> colour \<Rightarrow> int \<Rightarrow> image \<Rightarrow> match list \<Rightarrow> image" where
  "fallback_rects scale_x scale_y stroke stroke_width img [] = img"
| "fallback_rects scale_x scale_y stroke stroke_width img (r # rs) =
     (let x0 = py_int (m_x0 r * scale_x);
          x1 = py_int (m_x1 r * scale_x);
          y0 = py_int (m_top r * scale_y);
          y1 = py_int (m_bottom r * scale_y)
      in fallback_rects scale_x scale_y stroke stroke_width
           (stroke_passes img (x0, y0, x1, y1) stroke (py_range stroke_width)) rs)"

text \<open>Division by a zero page dimension raises \<open>ZeroDivisionError\<close>; there is no other
  check on the page dimensions. On success the annotated image is saved at \<open>out_path\<close>.\<close>

definition draw_fallback ::
  "image \<Rightarrow> rat \<times> rat \<Rightarrow> match list \<Rightarrow> path \<Rightarrow> colour \<Rightarrow> int \<Rightarrow> files \<Rightarrow> exn + files" where
  "draw_fallback pil_img page_pts rects out_path stroke stroke_width fs =
     (case img_size pil_img of (img_w, img_h) \<Rightarrow>
      case page_pts of (page_w, page_h) \<Rightarrow>
        if page_w = 0 then Inl ZeroDivisionError
        else if page_h = 0 then Inl ZeroDivisionError
        else
          let scale_x = of_int img_w / page_w;
              scale_y = of_int img_h / page_h
          in Inr (fs(out_path \<mapsto>
               Png (fallback_rects scale_x scale_y stroke stroke_width pil_img rects))))"

subsection \<open>\<open>image_handler.draw_boxes\<close>\<close>

fun boxes_loop :: "colour \<Rightarrow> int \<Rightarrow> image \<Rightarrow> rect list \<Rightarrow> image" where
  "boxes_loop stroke width img [] = img"
| "boxes_loop stroke width img (box # boxes) =
     boxes_loop stroke width (stroke_passes img box stroke (py_range width)) boxes"


subsection \<open>\<open>excel_handler.draw_matches_on_image\<close>\<close>

fun cells_loop :: "((nat \<times> nat) \<rightharpoonup> rect) \<Rightarrow> colour \<Rightarrow> int \<Rightarrow> image \<Rightarrow> (nat \<times> nat) list \<Rightarrow> image" where
  "cells_loop cell_boxes stroke stroke_width img [] = img"
| "cells_loop cell_boxes stroke stroke_width img (rc # rcs) =
     (case cell_boxes rc of
        None \<Rightarrow> cells_loop cell_boxes stroke stroke_width img rcs
      | Some box \<Rightarrow>
          cells_loop cell_boxes stroke stroke_width
            (stroke_passes img box stroke (py_range stroke_width)) rcs)"

definition draw_matches_on_image ::
  "image \<Rightarrow> ((nat \<times> nat) \<rightharpoonup> rect) \<Rightarrow> (nat \<times> nat) list \<Rightarrow> path \<Rightarrow> colour \<Rightarrow> int \<Rightarrow> files \<Rightarrow> files" where
  "draw_matches_on_image img cell_boxes match_cells out_path stroke stroke_width fs =
     fs(out_path \<mapsto> Png (cells_loop cell_boxes stroke stroke_width img match_cells))"

section \<open>Aggregation (\<open>pdf_handler.images_to_pdf\<close>)\<close>

text \<open>\<open>Image.open(p)\<close>: fails when nothing, or no image, is stored at \<open>p\<close>.\<close>

definition image_open :: "files \<Rightarrow> path \<Rightarrow> exn + image" where
  "image_open fs p =
     (case fs p of
        None \<Rightarrow> Inl FileNotFoundError
      | Some (Png img) \<Rightarrow> Inr img
      | Some (Pdf pages) \<Rightarrow> Inl UnidentifiedImageError)"

fun open_all :: "files \<Rightarrow> path list \<Rightarrow> exn + image list" where
  "open_all fs [] = Inr []"
| "open_all fs (p # ps) =
     (case image_open fs p of
        Inl e \<Rightarrow> Inl e
      | Inr img \<Rightarrow> (case open_all fs ps of Inl e \<Rightarrow> Inl e | Inr imgs \<Rightarrow> Inr (img # imgs)))"

text \<open>\<open>imgs[0].save(out_pdf, save_all=True, append_images=imgs[1:])\<close>: the first image is
  the base page, the others follow in list order; \<open>imgs[0]\<close> of an empty list raises.\<close>

definition images_to_pdf :: "path list \<Rightarrow> path \<Rightarrow> files \<Rightarrow> exn + files" where
  "images_to_pdf image_list out_pdf fs =
     (case open_all fs image_list of
        Inl e \<Rightarrow> Inl e
      | Inr imgs \<Rightarrow>
          (case imgs of
             [] \<Rightarrow> Inl IndexError
           | base # appended \<Rightarrow> Inr (fs(out_pdf \<mapsto> Pdf (base # appended)))))"

section \<open>The page-oriented pipeline (\<open>pdf_handler.annotate_pdf_and_build_combined\<close>)\<close>

text \<open>
  The rasterising collaborator is part of the input. \<open>page.to_image(resolution)\<close> either
  raises or returns a page image object; that object holds the plain raster \<open>original\<close>
  and a native \<open>draw_rect\<close> primitive, which either raises on a rectangle or draws it on
  the object's own annotation layer (never on \<open>original\<close>).
\<close>

record page_image =
  original :: image
  draw_rect_raises :: "rat \<times> rat \<times> rat \<times> rat \<Rightarrow> exn option"

record page =
  extract_words :: "word list"
  width :: rat
  height :: rat
  to_image :: "int \<Rightarrow> exn + page_image"

text \<open>The keyword arguments of the pipelines. \<open>prefer_fallback\<close> is accepted by the
  source and never read, so it is left out.\<close>

record options =
  out_dir :: path
  resolution :: int
  outline_width :: int
  stroke_color :: colour
  force_render :: bool
  font_size :: int

definition render_page :: "page \<Rightarrow> int \<Rightarrow> exn + (image \<times> page_image)" where
  "render_page page res =
     (case to_image page res of
        Inl e \<Rightarrow> Inl e
      | Inr page_img \<Rightarrow> Inr (original page_img, page_img))"

text \<open>The \<open>try\<close> block of \<open>draw_with_drawrect\<close>: the first rectangle on which the native
  primitive raises ends the loop.\<close>

fun native_rects :: "page_image \<Rightarrow> match list \<Rightarrow> exn option" where
  "native_rects page_img_obj [] = None"
| "native_rects page_img_obj (r # rs) =
     (case draw_rect_raises page_img_obj (m_x0 r, m_top r, m_x1 r, m_bottom r) of
        Some e \<Rightarrow> Some e
      | None \<Rightarrow> native_rects page_img_obj rs)"

text \<open>Every exception is caught and printed, and the function returns \<open>False\<close>; otherwise
  it saves \<open>page_img_obj.original\<close> at \<open>out_path\<close> and returns \<open>True\<close>.\<close>

definition draw_with_drawrect ::
  "page_image \<Rightarrow> match list \<Rightarrow> path \<Rightarrow> colour \<Rightarrow> int \<Rightarrow> world \<Rightarrow> bool \<times> world" where
  "draw_with_drawrect page_img_obj rects out_path stroke stroke_width w =
     (case native_rects page_img_obj rects of
        Some e \<Rightarrow> (False, w\<lparr>log := log w @ [Draw_rect_failed e]\<rparr>)
      | None \<Rightarrow> (True, w\<lparr>files := (files w)(out_path \<mapsto> Png (original page_img_obj))\<rparr>))"

text \<open>\<open>matches_by_page.setdefault(m["page"], []).append(m)\<close> and
  \<open>matches_by_page.get(pnum, [])\<close>.\<close>

definition setdefault_append :: "(nat \<rightharpoonup> match list) \<Rightarrow> match \<Rightarrow> (nat \<rightharpoonup> match list)" where
  "setdefault_append d m =
     d(m_page m \<mapsto> (case d (m_page m) of None \<Rightarrow> [] | Some l \<Rightarrow> l) @ [m])"

definition group_by_page :: "match list \<Rightarrow> (nat \<rightharpoonup> match list)" where
  "group_by_page matches = foldl setdefault_append Map.empty matches"

definition dict_get :: "(nat \<rightharpoonup> match list) \<Rightarrow> nat \<Rightarrow> match list" where
  "dict_get d k = (case d k of None \<Rightarrow> [] | Some l \<Rightarrow> l)"

text \<open>The dictionary \<open>chosen_images\<close> keeps insertion order: an association list, where
  \<open>chosen_images[pnum] = p\<close> replaces the value of a present key and appends a new one.\<close>

type_synonym chosen = "(nat \<times> path) list"

fun dict_set :: "chosen \<Rightarrow> nat \<Rightarrow> path \<Rightarrow> chosen" where
  "dict_set [] k v = [(k, v)]"
| "dict_set ((k', v') # d) k v = (if k' = k then (k, v) # d else (k', v') # dict_set d k v)"

definition fallback_path :: "path \<Rightarrow> nat \<Rightarrow> path" where
  "fallback_path dir pnum = path_join dir (''page_'' @ str_nat pnum @ ''_annot_fallback.png'')"

definition drawrect_path :: "path \<Rightarrow> nat \<Rightarrow> path" where
  "drawrect_path dir pnum = path_join dir (''page_'' @ str_nat pnum @ ''_annot_drawrect.png'')"

definition combined_path :: "path \<Rightarrow> path" where
  "combined_path dir = path_join dir ''annotated_combined.pdf''"

text \<open>One iteration of the loop over the pages. Nothing in the loop body catches an
  exception of \<open>render_page\<close> or \<open>draw_fallback\<close>.\<close>

fun page_step ::
  "options \<Rightarrow> (nat \<rightharpoonup> match list) \<Rightarrow> nat \<Rightarrow> page \<Rightarrow> chosen \<times> world \<Rightarrow> exn + (chosen \<times> world)" where
  "page_step opts matches_by_page pnum page (chosen_images, w) =
     (let page_matches = dict_get matches_by_page pnum in
      if page_matches = [] \<and> \<not> force_render opts then Inr (chosen_images, w)
      else
        case render_page page (resolution opts) of
          Inl e \<Rightarrow> Inl e
        | Inr (pil_img, page_img_obj) \<Rightarrow>
            (case draw_fallback pil_img (width page, height page) page_matches
                    (fallback_path (out_dir opts) pnum) (stroke_color opts) (outline_width opts)
                    (files w) of
               Inl e \<Rightarrow> Inl e
             | Inr fs \<Rightarrow>
                 let chosen_images' = dict_set chosen_images pnum (fallback_path (out_dir opts) pnum);
                     (ok, w') = draw_with_drawrect page_img_obj page_matches
                                  (drawrect_path (out_dir opts) pnum) (stroke_color opts)
                                  (outline_width opts) (w\<lparr>files := fs\<rparr>)
                 in Inr (chosen_images', w')))"

fun pages_loop ::
  "options \<Rightarrow> (nat \<rightharpoonup> match list) \<Rightarrow> nat \<Rightarrow> page list \<Rightarrow> chosen \<times> world \<Rightarrow> exn + (chosen \<times> world)" where
  "pages_loop opts matches_by_page pnum [] st = Inr st"
| "pages_loop opts matches_by_page pnum (page # rest) st =
     (case page_step opts matches_by_page pnum page st of
        Inl e \<Rightarrow> Inl e
      | Inr st' \<Rightarrow> pages_loop opts matches_by_page (Suc pnum) rest st')"

text \<open>\<open>[chosen_images[k] for k in sorted(chosen_images.keys())]\<close>\<close>

fun lookup_all :: "chosen \<Rightarrow> nat list \<Rightarrow> exn + path list" where
  "lookup_all d [] = Inr []"
| "lookup_all d (k # ks) =
     (case map_of d k of
        None \<Rightarrow> Inl KeyError
      | Some v \<Rightarrow> (case lookup_all d ks of Inl e \<Rightarrow> Inl e | Inr vs \<Rightarrow> Inr (v # vs)))"

definition ordered_images :: "chosen \<Rightarrow> exn + path list" where
  "ordered_images chosen_images = lookup_all chosen_images (sort (map fst chosen_images))"

text \<open>
  The pipeline returns \<open>(ordered, combined_pdf)\<close>. The second component is typed as an
  optional path, Python's \<open>None\<close> being \<open>None\<close>; the source returns the path object
  \<open>out_dir / "annotated_combined.pdf"\<close> on every normal exit.
\<close>

definition annotate_pdf_and_build_combined ::
  "page list \<Rightarrow> pystr \<Rightarrow> options \<Rightarrow> world \<Rightarrow> exn + ((path list \<times> path option) \<times> world)" where
  "annotate_pdf_and_build_combined pdf query opts w =
     (let matches = find_matches_in_pdf (map extract_words pdf) query;
          matches_by_page = group_by_page matches
      in case pages_loop opts matches_by_page 0 pdf ([], w) of
           Inl e \<Rightarrow> Inl e
         | Inr (chosen_images, w1) \<Rightarrow>
             (case ordered_images chosen_images of
                Inl e \<Rightarrow> Inl e
              | Inr ordered \<Rightarrow>
                  let combined_pdf = combined_path (out_dir opts) in
                  if ordered \<noteq> [] then
                    (case images_to_pdf ordered combined_pdf (files w1) of
                       Inl e \<Rightarrow> Inl e
                     | Inr fs \<Rightarrow> Inr ((ordered, Some combined_pdf), w1\<lparr>files := fs\<rparr>))
                  else Inr ((ordered, Some combined_pdf), w1)))"

section \<open>The grid-oriented pipeline (\<open>excel_handler.process_excel_file\<close>)\<close>

text \<open>
  A sheet of the opened workbook: its name, the worksheet of cell values that the locator
  scans, and the outcome of \<open>render_sheet_to_image\<close> on its copy for a given font size,
  which either raises or returns the raster and the pixel box of each cell (the third
  returned component is not used by the caller). Column widths, text wrapping and font
  measurement belong to the rendering collaborator. Cell styling and saving of the
  annotated workbook copy touch neither the rasters nor the combined artifact and are
  left out; the function has no \<open>force_render\<close> parameter.
\<close>

record sheet =
  sheet_name :: string
  ws_values :: worksheet
  render_sheet_to_image :: "int \<Rightarrow> exn + (image \<times> ((nat \<times> nat) \<rightharpoonup> rect))"

definition sheet_path :: "path \<Rightarrow> string \<Rightarrow> path" where
  "sheet_path dir name = path_join dir (name @ ''_annot.png'')"

text \<open>One iteration of the loop over the sheet names: only \<open>render_sheet_to_image\<close> is
  inside the \<open>try\<close>, whose handler prints the error and continues with the next sheet.\<close>

fun sheet_step :: "options \<Rightarrow> pystr \<Rightarrow> sheet \<Rightarrow> path list \<times> world \<Rightarrow> path list \<times> world" where
  "sheet_step opts query sh (generated_images, w) =
     (let match_cells = find_matches_in_sheet (ws_values sh) query in
      case render_sheet_to_image sh (font_size opts) of
        Inl e \<Rightarrow> (generated_images, w\<lparr>log := log w @ [Error_rendering_sheet (sheet_name sh) e]\<rparr>)
      | Inr (img, cell_boxes) \<Rightarrow>
          let out_img_path = sheet_path (out_dir opts) (sheet_name sh);
              fs = draw_matches_on_image img cell_boxes match_cells out_img_path
                     (stroke_color opts) (outline_width opts) (files w)
          in (generated_images @ [out_img_path], w\<lparr>files := fs\<rparr>))"

fun sheets_loop :: "options \<Rightarrow> pystr \<Rightarrow> sheet list \<Rightarrow> path list \<times> world \<Rightarrow> path list \<times> world" where
  "sheets_loop opts query [] st = st"
| "sheets_loop opts query (sh # rest) st = sheets_loop opts query rest (sheet_step opts query sh st)"

text \<open>Returns \<open>(generated_images, str(combined_pdf), str(annotated_name))\<close>; a failure of
  \<open>images_to_pdf\<close> is caught and printed here.\<close>

definition process_excel_file ::
  "sheet list \<Rightarrow> string \<Rightarrow> pystr \<Rightarrow> options \<Rightarrow> world \<Rightarrow> (path list \<times> path option \<times> path) \<times> world" where
  "process_excel_file wb xlsx_name query opts w =
     (case sheets_loop opts query wb ([], w) of (generated_images, w1) \<Rightarrow>
      let annotated_name = path_join (out_dir opts) (''annotated_'' @ xlsx_name);
          combined_pdf = combined_path (out_dir opts)
      in if generated_images \<noteq> [] then
           (case images_to_pdf generated_images combined_pdf (files w1) of
              Inl e \<Rightarrow>
                ((generated_images, Some combined_pdf, annotated_name),
                 w1\<lparr>log := log w1 @ [Error_creating_combined e]\<rparr>)
            | Inr fs \<Rightarrow>
                ((generated_images, Some combined_pdf, annotated_name), w1\<lparr>files := fs\<rparr>))
         else ((generated_images, Some combined_pdf, annotated_name), w1))"

section \<open>The specification's vocabulary\<close>



definition inflate :: "int \<Rightarrow> rect \<Rightarrow> rect" where
  "inflate k box = (case box of (x0, y0, x1, y1) \<Rightarrow> (x0 - k, y0 - k, x1 + k, y1 + k))"

section \<open>Vocabulary for the pipeline properties\<close>





text \<open>Two pages that differ at most in how their native drawing primitive behaves, and
  the paths that are not the diagnostic output of a native draw.\<close>

definition same_but_native :: "int \<Rightarrow> page \<Rightarrow> page \<Rightarrow> bool" where
  "same_but_native res pg pg' \<longleftrightarrow>
     extract_words pg' = extract_words pg \<and> width pg' = width pg \<and> height pg' = height pg \<and>
     rel_sum (=) (\<lambda>obj obj'. original obj' = original obj) (to_image pg res) (to_image pg' res)"

definition canonical :: "path \<Rightarrow> path \<Rightarrow> bool" where
  "canonical dir p \<longleftrightarrow> (\<forall>n. p \<noteq> drawrect_path dir n)"

definition same_canonical_files :: "path \<Rightarrow> files \<Rightarrow> files \<Rightarrow> bool" where
  "same_canonical_files dir fs fs' \<longleftrightarrow> (\<forall>p. canonical dir p \<longrightarrow> fs p = fs' p)"

text \<open>Loop states and results that agree on what was recorded and on every canonical
  file.\<close>

fun state_rel :: "path \<Rightarrow> chosen \<times> world \<Rightarrow> chosen \<times> world \<Rightarrow> bool" where
  "state_rel dir (ch, w) (ch', w') \<longleftrightarrow>
     ch' = ch \<and> same_canonical_files dir (files w) (files w') \<and>
     (\<forall>v \<in> set (map snd ch). canonical dir v)"

fun result_rel :: "path \<Rightarrow> (path list \<times> path option) \<times> world \<Rightarrow> (path list \<times> path option) \<times> world \<Rightarrow> bool" where
  "result_rel dir (r, w) (r', w') \<longleftrightarrow> r' = r \<and> same_canonical_files dir (files w) (files w')"

text \<open>The annotated raster of a sheet, the list of sheets that rendered (with their output
  paths), the errors printed for the others, and a sequence of file writes.\<close>

definition sheet_raster :: "options \<Rightarrow> pystr \<Rightarrow> sheet \<Rightarrow> exn + image" where
  "sheet_raster opts query sh =
     (case render_sheet_to_image sh (font_size opts) of
        Inl e \<Rightarrow> Inl e
      | Inr (img, cell_boxes) \<Rightarrow>
          Inr (cells_loop cell_boxes (stroke_color opts) (outline_width opts) img
                 (find_matches_in_sheet (ws_values sh) query)))"

fun rendered_sheets :: "options \<Rightarrow> pystr \<Rightarrow> sheet list \<Rightarrow> (path \<times> image) list" where
  "rendered_sheets opts query [] = []"
| "rendered_sheets opts query (sh # rest) =
     (case sheet_raster opts query sh of
        Inl e \<Rightarrow> rendered_sheets opts query rest
      | Inr img \<Rightarrow> (sheet_path (out_dir opts) (sheet_name sh), img) # rendered_sheets opts query rest)"

fun render_errors :: "options \<Rightarrow> sheet list \<Rightarrow> event list" where
  "render_errors opts [] = []"
| "render_errors opts (sh # rest) =
     (case render_sheet_to_image sh (font_size opts) of
        Inl e \<Rightarrow> Error_rendering_sheet (sheet_name sh) e # render_errors opts rest
      | Inr r \<Rightarrow> render_errors opts rest)"


fun write_all :: "files \<Rightarrow> (path \<times> image) list \<Rightarrow> files" where
  "write_all fs [] = fs"
| "write_all fs ((p, img) # rest) = write_all (fs(p \<mapsto> Png img)) rest"

section \<open>Example documents\<close>

text \<open>
  Small concrete inputs on which the pipelines are evaluated: a 600 by 800 point page
  carrying the word "Report", rasterised at 900 by 1200 pixels, variants of it whose
  rasterisation raises, whose width is zero or whose native drawing primitive raises, a
  page without words, and one-cell sheets.
\<close>

definition raster_900 :: image where
  "raster_900 = \<lparr>img_size = (900, 1200), outlines = []\<rparr>"

definition never_raises :: "rat \<times> rat \<times> rat \<times> rat \<Rightarrow> exn option" where
  "never_raises r = None"

definition always_raises :: "rat \<times> rat \<times> rat \<times> rat \<Rightarrow> exn option" where
  "always_raises r = Some (CollaboratorError ''draw_rect'')"

definition rasterize_ok :: "int \<Rightarrow> exn + page_image" where
  "rasterize_ok res = Inr \<lparr>original = raster_900, draw_rect_raises = never_raises\<rparr>"

definition rasterize_native_fails :: "int \<Rightarrow> exn + page_image" where
  "rasterize_native_fails res = Inr \<lparr>original = raster_900, draw_rect_raises = always_raises\<rparr>"

definition rasterize_raises :: "int \<Rightarrow> exn + page_image" where
  "rasterize_raises res = Inl (CollaboratorError ''to_image'')"

definition word_report :: word where
  "word_report = \<lparr>w_text = Some [82, 101, 112, 111, 114, 116], w_x0 = 100, w_top = 200,
                   w_x1 = 160, w_bottom = 220\<rparr>"

definition query_report :: pystr where
  "query_report = [114, 101, 112, 111, 114, 116]"

definition page_report :: page where
  "page_report = \<lparr>extract_words = [word_report], width = 600, height = 800, to_image = rasterize_ok\<rparr>"

definition page_blank :: page where
  "page_blank = \<lparr>extract_words = [], width = 600, height = 800, to_image = rasterize_ok\<rparr>"

definition page_unrenderable :: page where
  "page_unrenderable =
     \<lparr>extract_words = [word_report], width = 600, height = 800, to_image = rasterize_raises\<rparr>"

definition page_zero_width :: page where
  "page_zero_width = \<lparr>extract_words = [word_report], width = 0, height = 800, to_image = rasterize_ok\<rparr>"

definition page_native_fails :: page where
  "page_native_fails =
     \<lparr>extract_words = [word_report], width = 600, height = 800, to_image = rasterize_native_fails\<rparr>"

definition example_options :: options where
  "example_options = \<lparr>out_dir = ''out'', resolution = 150, outline_width = 1, stroke_color = ''red'',
                       force_render = False, font_size = 14\<rparr>"

definition empty_world :: world where
  "empty_world = \<lparr>files = Map.empty, log = []\<rparr>"

definition match_report :: "nat \<Rightarrow> match" where
  "match_report pnum = \<lparr>m_page = pnum, m_text = [82, 101, 112, 111, 114, 116], m_x0 = 100,
                         m_top = 200, m_x1 = 160, m_bottom = 220\<rparr>"

definition raster_900_boxed :: image where
  "raster_900_boxed = \<lparr>img_size = (900, 1200), outlines = [((150, 300, 240, 330), ''red'')]\<rparr>"

definition no_cells :: "nat \<Rightarrow> nat \<Rightarrow> pystr option" where
  "no_cells r c = None"

definition report_cell :: "nat \<Rightarrow> nat \<Rightarrow> pystr option" where
  "report_cell r c = (if r = 1 \<and> c = 1 then Some [82, 101, 112, 111, 114, 116] else None)"

definition grid_raster :: image where
  "grid_raster = \<lparr>img_size = (60, 30), outlines = []\<rparr>"

definition grid_raster_boxed :: image where
  "grid_raster_boxed = \<lparr>img_size = (60, 30), outlines = [((0, 0, 60, 30), ''red'')]\<rparr>"

definition grid_boxes :: "(nat \<times> nat) \<rightharpoonup> rect" where
  "grid_boxes = [(1, 1) \<mapsto> (0, 0, 60, 30)]"

definition render_grid :: "int \<Rightarrow> exn + (image \<times> ((nat \<times> nat) \<rightharpoonup> rect))" where
  "render_grid fsz = Inr (grid_raster, grid_boxes)"

definition render_raises :: "int \<Rightarrow> exn + (image \<times> ((nat \<times> nat) \<rightharpoonup> rect))" where
  "render_raises fsz = Inl (CollaboratorError ''render'')"

definition sheet_a :: sheet where
  "sheet_a = \<lparr>sheet_name = ''A'',
              ws_values = \<lparr>max_row = 1, max_column = 1, cell_value = report_cell\<rparr>,
              render_sheet_to_image = render_grid\<rparr>"

definition sheet_b :: sheet where
  "sheet_b = \<lparr>sheet_name = ''B'',
              ws_values = \<lparr>max_row = 1, max_column = 1, cell_value = report_cell\<rparr>,
              render_sheet_to_image = render_raises\<rparr>"

definition sheet_c :: sheet where
  "sheet_c = \<lparr>sheet_name = ''C'',
              ws_values = \<lparr>max_row = 1, max_column = 1, cell_value = no_cells\<rparr>,
              render_sheet_to_image = render_grid\<rparr>"

section \<open>Coordinate mapping and stroke emulation\<close>


lemma stroke_passes_eq:
  "stroke_passes img box stroke ks =
     img\<lparr>outlines := outlines img @ map (\<lambda>k. (inflate k box, stroke)) ks\<rparr>"
proof (induction ks arbitrary: img)
  case Nil
  then show ?case by simp
next
  case (Cons k ks)
  obtain x0 y0 x1 y1 where b: "box = (x0, y0, x1, y1)" by (cases box) auto
  show ?case unfolding b by (simp add: Cons.IH[unfolded b] rectangle_def inflate_def)
qed





lemma py_range_1: "py_range 1 = [0]"
  by (simp add: py_range_def)





section \<open>Stroke emulation\<close>

lemma boxes_loop_single:
  "boxes_loop stroke W img [box] =
     img\<lparr>outlines := outlines img @ map (\<lambda>k. (inflate k box, stroke)) (py_range W)\<rparr>"
  by (simp add: stroke_passes_eq)



section \<open>Query normalisation and the locators\<close>

lemma lower_cp_idem: "concat (map lower_cp (lower_cp c)) = lower_cp c"
  by (simp add: lower_cp_def)

lemma py_lower_idem: "py_lower (py_lower s) = py_lower s"
  unfolding py_lower_def by (induction s) (simp_all add: lower_cp_idem)

lemma lower_upper_cp: "c < 128 \<Longrightarrow> concat (map lower_cp (upper_cp c)) = lower_cp c"
  by (auto simp add: lower_cp_def upper_cp_def)

lemma py_lower_upper: "is_ascii s \<Longrightarrow> py_lower (py_upper s) = py_lower s"
  unfolding py_lower_def py_upper_def is_ascii_def
  by (induction s) (simp_all add: lower_upper_cp)

lemma scan_words_eq:
  "scan_words q pnum ws acc =
     acc @ map (match_of_word pnum) (filter (\<lambda>w. py_in q (py_lower (word_text w))) ws)"
  by (induction ws arbitrary: acc) simp_all

lemma scan_pages_eq:
  "scan_pages q n pgs acc =
     acc @ concat (map (\<lambda>(i, ws). map (match_of_word i) (filter (\<lambda>w. py_in q (py_lower (word_text w))) ws))
                       (enumerate n pgs))"
  by (induction pgs arbitrary: n acc) (simp_all add: scan_words_eq)

lemma scan_cols_eq:
  "scan_cols q ws r cs acc =
     acc @ map (\<lambda>c. (r, c))
       (filter (\<lambda>c. case cell_value ws r c of None \<Rightarrow> False | Some v \<Rightarrow> py_in q (py_lower v)) cs)"
  by (induction cs arbitrary: acc) (simp_all split: option.splits)

lemma scan_rows_eq:
  "scan_rows q ws rs acc =
     acc @ concat (map (\<lambda>r. map (\<lambda>c. (r, c))
       (filter (\<lambda>c. case cell_value ws r c of None \<Rightarrow> False | Some v \<Rightarrow> py_in q (py_lower v))
          [1 ..< max_column ws + 1])) rs)"
  by (induction rs arbitrary: acc) (simp_all add: scan_cols_eq)

lemma lower_space: "py_isspace c \<Longrightarrow> lower_cp c = [c]"
  by (auto simp: py_isspace_def lower_cp_def)

lemma py_lower_spaces: "list_all py_isspace s \<Longrightarrow> py_lower s = s"
  unfolding py_lower_def by (induction s) (simp_all add: lower_space)

lemma dropWhile_all: "list_all P s \<Longrightarrow> dropWhile P s = []"
  by (induction s) simp_all

lemma py_strip_spaces: "list_all py_isspace s \<Longrightarrow> py_strip s = []"
  by (simp add: py_strip_def dropWhile_all)

lemma py_in_empty: "py_in [] s"
  by (simp add: py_in_def)

text \<open>
  Claim C5, amended. For every query \<open>Q\<close> of ASCII characters, each locator (pages, sheets,
  OCR rows) returns the same sequence of matches for \<open>Q\<close>, \<open>Q.upper()\<close> and \<open>Q.lower()\<close>:
  the locators depend on the query only through its lower-cased form, and lower-casing
  undoes upper-casing on ASCII text.
\<close>

theorem case_insensitive_ascii_query:
  assumes "is_ascii Q"
  shows "find_matches_in_pdf pgs (py_upper Q) = find_matches_in_pdf pgs Q
       \<and> find_matches_in_pdf pgs (py_lower Q) = find_matches_in_pdf pgs Q
       \<and> find_matches_in_sheet ws (py_upper Q) = find_matches_in_sheet ws Q
       \<and> find_matches_in_sheet ws (py_lower Q) = find_matches_in_sheet ws Q
       \<and> extract_boxes data (py_upper Q) = extract_boxes data Q
       \<and> extract_boxes data (py_lower Q) = extract_boxes data Q"
  using assms
  by (simp add: find_matches_in_pdf_def find_matches_in_sheet_def extract_boxes_def
        py_lower_upper py_lower_idem)

text \<open>The query "Rep" and its upper-case form both find the word "Report".\<close>

theorem case_insensitive_ascii_query_witness:
  "is_ascii [82, 101, 112] \<and>
   find_matches_in_pdf [[\<lparr>w_text = Some [82, 101, 112, 111, 114, 116], w_x0 = 100, w_top = 200,
        w_x1 = 160, w_bottom = 220\<rparr>]] (py_upper [82, 101, 112]) =
     [\<lparr>m_page = 0, m_text = [82, 101, 112, 111, 114, 116], m_x0 = 100, m_top = 200,
        m_x1 = 160, m_bottom = 220\<rparr>] \<and>
   find_matches_in_pdf [[\<lparr>w_text = Some [82, 101, 112, 111, 114, 116], w_x0 = 100, w_top = 200,
        w_x1 = 160, w_bottom = 220\<rparr>]] [82, 101, 112] =
     [\<lparr>m_page = 0, m_text = [82, 101, 112, 111, 114, 116], m_x0 = 100, m_top = 200,
        m_x1 = 160, m_bottom = 220\<rparr>]"
proof -
  have a: "is_ascii [82, 101, 112]" by (simp add: is_ascii_def)
  have b: "find_matches_in_pdf [[\<lparr>w_text = Some [82, 101, 112, 111, 114, 116], w_x0 = 100, w_top = 200,
        w_x1 = 160, w_bottom = 220\<rparr>]] [82, 101, 112] =
     [\<lparr>m_page = 0, m_text = [82, 101, 112, 111, 114, 116], m_x0 = 100, m_top = 200,
        m_x1 = 160, m_bottom = 220\<rparr>]"
    by (simp add: find_matches_in_pdf_def py_lower_def lower_cp_def py_strip_def py_isspace_def
          word_text_def match_of_word_def py_in_def sublist_Cons_right)
  show ?thesis
    using a b case_insensitive_ascii_query [OF a, of
      "[[\<lparr>w_text = Some [82, 101, 112, 111, 114, 116], w_x0 = 100, w_top = 200,
        w_x1 = 160, w_bottom = 220\<rparr>]]"]
    by simp
qed

text \<open>
  The law fails outside ASCII: the query U+00DF (sharp s) is found in the word
  "strasse" written with a sharp s, whereas its upper-case form is "SS", which lower-cases to "ss" and is not
  found.
\<close>

theorem case_law_counterexample:
  "find_matches_in_pdf [[\<lparr>w_text = Some [115, 116, 114, 97, 223, 101], w_x0 = 1, w_top = 2,
        w_x1 = 3, w_bottom = 4\<rparr>]] [223] =
     [\<lparr>m_page = 0, m_text = [115, 116, 114, 97, 223, 101], m_x0 = 1, m_top = 2, m_x1 = 3, m_bottom = 4\<rparr>]
   \<and> py_upper [223] = [83, 83]
   \<and> find_matches_in_pdf [[\<lparr>w_text = Some [115, 116, 114, 97, 223, 101], w_x0 = 1, w_top = 2,
        w_x1 = 3, w_bottom = 4\<rparr>]] (py_upper [223]) = []"
  by (simp add: find_matches_in_pdf_def py_lower_def py_upper_def
        lower_cp_def upper_cp_def py_strip_def py_isspace_def
        word_text_def match_of_word_def py_in_def sublist_Cons_right)

text \<open>
  Claim C10. A non-empty query of whitespace characters only is normalised to the empty
  string (lower-case, then strip), and then the page locator returns a match record for
  every extracted word of every page, in page and word order, and the sheet locator
  returns every populated cell, in row and column order.
\<close>

theorem whitespace_query_matches_everything:
  assumes "Q \<noteq> []" and "list_all py_isspace Q"
  shows "py_strip (py_lower Q) = []
       \<and> find_matches_in_pdf pgs Q =
           concat (map (\<lambda>(pnum, ws). map (match_of_word pnum) ws) (enumerate 0 pgs))
       \<and> find_matches_in_sheet ws Q =
           concat (map (\<lambda>r. map (\<lambda>c. (r, c))
                     (filter (\<lambda>c. cell_value ws r c \<noteq> None) [1 ..< max_column ws + 1]))
                   [1 ..< max_row ws + 1])"
proof -
  have q: "py_strip (py_lower Q) = []"
    using assms(2) by (simp add: py_lower_spaces py_strip_spaces)
  have c: "(\<lambda>c. case cell_value ws r c of None \<Rightarrow> False | Some v \<Rightarrow> py_in [] (py_lower v))
         = (\<lambda>c. cell_value ws r c \<noteq> None)" for r
    by (auto simp: py_in_empty split: option.splits)
  show ?thesis
    by (simp add: q find_matches_in_pdf_def find_matches_in_sheet_def scan_pages_eq scan_rows_eq
          py_in_empty c)
qed

text \<open>The query " \t" on a two-page document and on a two-by-two sheet with a populated
  diagonal.\<close>

theorem whitespace_query_matches_everything_witness:
  "[32, 9] \<noteq> ([]::nat list) \<and> list_all py_isspace [32, 9] \<and>
   find_matches_in_pdf [[\<lparr>w_text = Some [97], w_x0 = 1, w_top = 2, w_x1 = 3, w_bottom = 4\<rparr>],
                        [\<lparr>w_text = None, w_x0 = 5, w_top = 6, w_x1 = 7, w_bottom = 8\<rparr>]] [32, 9] =
     [\<lparr>m_page = 0, m_text = [97], m_x0 = 1, m_top = 2, m_x1 = 3, m_bottom = 4\<rparr>,
      \<lparr>m_page = 1, m_text = [], m_x0 = 5, m_top = 6, m_x1 = 7, m_bottom = 8\<rparr>] \<and>
   find_matches_in_sheet \<lparr>max_row = 2, max_column = 2,
        cell_value = (\<lambda>r c. if r = c then Some [120] else None)\<rparr> [32, 9] = [(1, 1), (2, 2)]"
proof -
  have a: "[32, 9] \<noteq> ([]::nat list)" by simp
  have b: "list_all py_isspace [32, 9]" by (simp add: py_isspace_def)
  have u2: "[Suc 0 ..< 3] = [1, 2]" by (simp add: upt_rec)
  show ?thesis
    using a b
      whitespace_query_matches_everything [OF a b, of
        "[[\<lparr>w_text = Some [97], w_x0 = 1, w_top = 2, w_x1 = 3, w_bottom = 4\<rparr>],
          [\<lparr>w_text = None, w_x0 = 5, w_top = 6, w_x1 = 7, w_bottom = 8\<rparr>]]"
        "\<lparr>max_row = 2, max_column = 2, cell_value = (\<lambda>r c. if r = c then Some [120] else None)\<rparr>"]
    by (simp add: enumerate_eq_zip upt_rec match_of_word_def word_text_def py_strip_def py_isspace_def u2)
qed

section \<open>Paths, dictionaries and the page loop\<close>

declare str_nat.simps [simp del]

lemma fallback_neq_drawrect: "fallback_path dir i \<noteq> drawrect_path dir j"
proof
  assume "fallback_path dir i = drawrect_path dir j"
  then have "str_nat i @ ''_annot_fallback.png'' = str_nat j @ ''_annot_drawrect.png''"
    by (simp add: fallback_path_def drawrect_path_def path_join_def)
  then have "''_annot_fallback.png'' = ''_annot_drawrect.png''"
    by (subst (asm) append_eq_append_conv) simp_all
  then show False by simp
qed

lemma combined_neq_drawrect: "combined_path dir \<noteq> drawrect_path dir j"
  by (simp add: combined_path_def drawrect_path_def path_join_def)

lemma combined_neq_fallback: "combined_path dir \<noteq> fallback_path dir j"
  by (simp add: combined_path_def fallback_path_def path_join_def)


lemma sheet_neq_combined: "sheet_path dir a \<noteq> combined_path dir"
proof
  assume "sheet_path dir a = combined_path dir"
  then have "a @ ''_annot.png'' = ''annotated_co'' @ ''mbined.pdf''"
    by (simp add: sheet_path_def combined_path_def path_join_def)
  then have "''_annot.png'' = ''mbined.pdf''"
    by (subst (asm) append_eq_append_conv) simp_all
  then show False by simp
qed

lemma str_nat_digit: "n < 10 \<Longrightarrow> str_nat n = [digit_char n]"
  by (simp add: str_nat.simps)

lemma setdefault_get:
  "dict_get (setdefault_append d m) k =
     (if m_page m = k then dict_get d k @ [m] else dict_get d k)"
  by (simp add: setdefault_append_def dict_get_def)

lemma dict_get_foldl:
  "dict_get (foldl setdefault_append d ms) k = dict_get d k @ filter (\<lambda>m. m_page m = k) ms"
  by (induction ms arbitrary: d) (simp_all add: setdefault_get)

lemma dict_get_group: "dict_get (group_by_page ms) k = filter (\<lambda>m. m_page m = k) ms"
  by (simp add: group_by_page_def dict_get_foldl) (simp add: dict_get_def)

lemma dict_set_nonempty: "dict_set d k v \<noteq> []"
  by (cases d) (auto split: if_splits)

lemma page_step_skip:
  "dict_get mbp pnum = [] \<Longrightarrow> \<not> force_render opts \<Longrightarrow> page_step opts mbp pnum pg st = Inr st"
  by (cases st) simp

lemma draw_with_drawrect_no_rects:
  "draw_with_drawrect obj [] p stroke sw w = (True, w\<lparr>files := (files w)(p \<mapsto> Png (original obj))\<rparr>)"
  by (simp add: draw_with_drawrect_def)

lemma draw_fallback_no_rects:
  "pw \<noteq> 0 \<Longrightarrow> ph \<noteq> 0 \<Longrightarrow>
     draw_fallback img (pw, ph) [] p stroke sw fs = Inr (fs(p \<mapsto> Png img))"
  by (cases "img_size img") (simp add: draw_fallback_def)

lemma page_step_forced:
  assumes "dict_get mbp pnum = []" and "force_render opts"
      and "to_image pg (resolution opts) = Inr obj"
      and "width pg \<noteq> 0" and "height pg \<noteq> 0"
  shows "page_step opts mbp pnum pg (chosen_images, w) =
           Inr (dict_set chosen_images pnum (fallback_path (out_dir opts) pnum),
                w\<lparr>files := (files w)
                     (fallback_path (out_dir opts) pnum \<mapsto> Png (original obj),
                      drawrect_path (out_dir opts) pnum \<mapsto> Png (original obj))\<rparr>)"
  using assms
  by (simp add: render_page_def draw_fallback_no_rects draw_with_drawrect_no_rects)

lemma draw_fallback_raises:
  "(\<exists>e. draw_fallback img (pw, ph) rects p stroke sw fs = Inl e) \<longleftrightarrow> pw = 0 \<or> ph = 0"
  by (cases "img_size img") (auto simp add: draw_fallback_def Let_def)






lemma pages_loop_all_skipped:
  "(\<And>k. dict_get mbp k = []) \<Longrightarrow> \<not> force_render opts \<Longrightarrow> pages_loop opts mbp n pgs st = Inr st"
  by (induction pgs arbitrary: n) (simp_all add: page_step_skip)

lemma page_step_empty:
  assumes "page_step opts mbp n pg (ch, w) = Inr ([], w')"
  shows "ch = [] \<and> w' = w"
  using assms
  by (auto simp add: Let_def dict_set_nonempty split: if_splits sum.splits prod.splits)

lemma pages_loop_empty:
  "pages_loop opts mbp n pgs (ch, w) = Inr ([], w') \<Longrightarrow> ch = [] \<and> w' = w"
proof (induction pgs arbitrary: n ch w)
  case Nil
  then show ?case by simp
next
  case (Cons pg rest)
  from Cons.prems obtain ch1 w1 where
    s: "page_step opts mbp n pg (ch, w) = Inr (ch1, w1)" and
    l: "pages_loop opts mbp (Suc n) rest (ch1, w1) = Inr ([], w')"
    by (auto split: sum.splits)
  from Cons.IH[OF l] have "ch1 = []" "w' = w1" by simp_all
  with s page_step_empty[of opts mbp n pg ch w w1] show ?case by simp
qed

lemma lookup_all_length: "lookup_all d ks = Inr vs \<Longrightarrow> length vs = length ks"
  by (induction ks arbitrary: vs) (auto split: option.splits sum.splits)

lemma ordered_images_empty: "ordered_images d = Inr [] \<Longrightarrow> d = []"
  by (auto simp add: ordered_images_def dest: lookup_all_length)

section \<open>Runs that differ only in the native drawing primitive\<close>

lemma canonical_fallback: "canonical dir (fallback_path dir n)"
  by (simp add: canonical_def fallback_neq_drawrect)

lemma canonical_combined: "canonical dir (combined_path dir)"
  by (simp add: canonical_def combined_neq_drawrect)

lemma not_canonical_drawrect: "\<not> canonical dir (drawrect_path dir n)"
  by (auto simp add: canonical_def)

lemma draw_fallback_cases:
  "draw_fallback img (pw, ph) rects p s sw fs =
     (if pw = 0 \<or> ph = 0 then Inl ZeroDivisionError
      else Inr (fs(p \<mapsto> Png (fallback_rects (of_int (fst (img_size img)) / pw)
                                   (of_int (snd (img_size img)) / ph) s sw img rects))))"
  by (cases "img_size img") (auto simp add: draw_fallback_def Let_def)

lemma draw_with_drawrect_frame:
  "draw_with_drawrect obj rects p stroke sw w = (ok, w') \<Longrightarrow> q \<noteq> p \<Longrightarrow> files w' q = files w q"
  by (auto simp add: draw_with_drawrect_def split: option.splits)

lemma draw_with_drawrect_failure:
  "draw_with_drawrect obj rects p stroke sw w = (False, w') \<Longrightarrow>
     files w' = files w \<and> (\<exists>e. native_rects obj rects = Some e \<and> log w' = log w @ [Draw_rect_failed e])"
  by (auto simp add: draw_with_drawrect_def split: option.splits)

lemma dict_set_value: "x \<in> set (map snd (dict_set d k v)) \<Longrightarrow> x = v \<or> x \<in> set (map snd d)"
  by (induction d) (fastforce split: if_splits)+

lemma dict_set_values: "set (map snd (dict_set d k v)) \<subseteq> insert v (set (map snd d))"
  using dict_set_value[of _ d k v] by blast

lemma same_canonical_update:
  "same_canonical_files dir fs fs' \<Longrightarrow> same_canonical_files dir (fs(p \<mapsto> x)) (fs'(p \<mapsto> x))"
  by (simp add: same_canonical_files_def)

lemma same_canonical_native:
  assumes "same_canonical_files dir (files w) (files w')"
      and "draw_with_drawrect obj rects (drawrect_path dir n) s sw w = (ok, w1)"
      and "draw_with_drawrect obj' rects' (drawrect_path dir n) s' sw' w' = (ok', w1')"
  shows "same_canonical_files dir (files w1) (files w1')"
proof -
  have "files w1 p = files w1' p" if c: "canonical dir p" for p
  proof -
    from c have ne: "p \<noteq> drawrect_path dir n" by (simp add: canonical_def)
    have "files w1 p = files w p" using assms(2) ne by (rule draw_with_drawrect_frame)
    moreover have "files w1' p = files w' p" using assms(3) ne by (rule draw_with_drawrect_frame)
    moreover have "files w p = files w' p" using assms(1) c by (simp add: same_canonical_files_def)
    ultimately show ?thesis by simp
  qed
  then show ?thesis by (simp add: same_canonical_files_def)
qed

lemma page_step_sim:
  assumes pg: "same_but_native (resolution opts) pg pg'"
      and st: "state_rel (out_dir opts) st st'"
  shows "rel_sum (=) (state_rel (out_dir opts))
           (page_step opts mbp n pg st) (page_step opts mbp n pg' st')"
proof -
  obtain ch w where s: "st = (ch, w)" by (cases st)
  obtain ch' w' where s': "st' = (ch', w')" by (cases st')
  from st s s' have ch: "ch' = ch" and fs: "same_canonical_files (out_dir opts) (files w) (files w')"
    and cv: "\<forall>v \<in> set (map snd ch). canonical (out_dir opts) v" by simp_all
  from pg have wd: "width pg' = width pg" and ht: "height pg' = height pg"
    and ti: "rel_sum (=) (\<lambda>obj obj'. original obj' = original obj)
               (to_image pg (resolution opts)) (to_image pg' (resolution opts))"
    by (simp_all add: same_but_native_def)
  show ?thesis
  proof (cases "dict_get mbp n = [] \<and> \<not> force_render opts")
    case True
    then show ?thesis using st by (simp add: s s')
  next
    case notskip: False
    show ?thesis
    proof (cases "to_image pg (resolution opts)")
      case (Inl e)
      with ti have "to_image pg' (resolution opts) = Inl e"
        by (cases "to_image pg' (resolution opts)") simp_all
      with Inl notskip show ?thesis by (auto simp add: s s' render_page_def Let_def)
    next
      case (Inr obj)
      with ti obtain obj' where o': "to_image pg' (resolution opts) = Inr obj'"
        and oo: "original obj' = original obj"
        by (cases "to_image pg' (resolution opts)") simp_all
      show ?thesis
      proof (cases "width pg = 0 \<or> height pg = 0")
        case True
        then show ?thesis using notskip Inr o'
          by (auto simp add: s s' render_page_def draw_fallback_cases wd ht Let_def)
      next
        case nz: False
        let ?fp = "fallback_path (out_dir opts) n"
        let ?dp = "drawrect_path (out_dir opts) n"
        let ?img = "Png (fallback_rects (of_int (fst (img_size (original obj))) / width pg)
                      (of_int (snd (img_size (original obj))) / height pg)
                      (stroke_color opts) (outline_width opts) (original obj) (dict_get mbp n))"
        let ?w1 = "w\<lparr>files := (files w)(?fp \<mapsto> ?img)\<rparr>"
        let ?w1' = "w'\<lparr>files := (files w')(?fp \<mapsto> ?img)\<rparr>"
        obtain ok w2 where d: "draw_with_drawrect obj (dict_get mbp n) ?dp (stroke_color opts)
                                 (outline_width opts) ?w1 = (ok, w2)"
          by (cases "draw_with_drawrect obj (dict_get mbp n) ?dp (stroke_color opts)
                                 (outline_width opts) ?w1")
        obtain ok' w2' where d': "draw_with_drawrect obj' (dict_get mbp n) ?dp (stroke_color opts)
                                 (outline_width opts) ?w1' = (ok', w2')"
          by (cases "draw_with_drawrect obj' (dict_get mbp n) ?dp (stroke_color opts)
                                 (outline_width opts) ?w1'")
        have a: "page_step opts mbp n pg st = Inr (dict_set ch n ?fp, w2)"
          using notskip Inr nz d by (auto simp add: s render_page_def draw_fallback_cases Let_def)
        have b: "page_step opts mbp n pg' st' = Inr (dict_set ch n ?fp, w2')"
          using notskip o' nz d' by (auto simp add: s' ch render_page_def draw_fallback_cases wd ht oo Let_def)
        have "same_canonical_files (out_dir opts) (files ?w1) (files ?w1')"
          using fs by (simp add: same_canonical_update)
        then have c: "same_canonical_files (out_dir opts) (files w2) (files w2')"
          using d d' by (rule same_canonical_native)
        have v: "\<forall>v \<in> set (map snd (dict_set ch n ?fp)). canonical (out_dir opts) v"
        proof
          fix x assume "x \<in> set (map snd (dict_set ch n ?fp))"
          then have "x = ?fp \<or> x \<in> set (map snd ch)" by (rule dict_set_value)
          then show "canonical (out_dir opts) x"
            using cv canonical_fallback[of "out_dir opts" n] by blast
        qed
        show ?thesis using a b c v by simp
      qed
    qed
  qed
qed

lemma pages_loop_sim:
  "list_all2 (same_but_native (resolution opts)) pgs pgs' \<Longrightarrow>
   state_rel (out_dir opts) st st' \<Longrightarrow>
   rel_sum (=) (state_rel (out_dir opts))
     (pages_loop opts mbp n pgs st) (pages_loop opts mbp n pgs' st')"
proof (induction pgs pgs' arbitrary: n st st' rule: list_all2_induct)
  case Nil
  then show ?case by simp
next
  case (Cons pg pgs pg' pgs')
  have r: "rel_sum (=) (state_rel (out_dir opts))
             (page_step opts mbp n pg st) (page_step opts mbp n pg' st')"
    using Cons.hyps(1) Cons.prems by (rule page_step_sim)
  show ?case
  proof (cases "page_step opts mbp n pg st")
    case (Inl e)
    with r have "page_step opts mbp n pg' st' = Inl e"
      by (cases "page_step opts mbp n pg' st'") simp_all
    with Inl show ?thesis by simp
  next
    case (Inr s1)
    with r obtain s1' where i': "page_step opts mbp n pg' st' = Inr s1'"
      and sr: "state_rel (out_dir opts) s1 s1'"
      by (cases "page_step opts mbp n pg' st'") simp_all
    show ?thesis using Inr i' Cons.IH[OF sr] by simp
  qed
qed

lemma lookup_all_values: "lookup_all d ks = Inr vs \<Longrightarrow> set vs \<subseteq> set (map snd d)"
proof (induction ks arbitrary: vs)
  case Nil
  then show ?case by simp
next
  case (Cons k ks)
  from Cons.prems obtain v vs' where m: "map_of d k = Some v" and l: "lookup_all d ks = Inr vs'"
    and vs: "vs = v # vs'"
    by (auto split: option.splits sum.splits)
  from m have "(k, v) \<in> set d" by (rule map_of_SomeD)
  then have "v \<in> set (map snd d)" by force
  with Cons.IH[OF l] vs show ?case by simp
qed

lemma open_all_cong:
  "\<forall>p \<in> set ps. fs p = fs' p \<Longrightarrow> open_all fs ps = open_all fs' ps"
proof (induction ps)
  case Nil
  then show ?case by simp
next
  case (Cons p ps)
  then have "fs p = fs' p" and "open_all fs ps = open_all fs' ps" by simp_all
  then show ?case by (simp only: open_all.simps image_open_def)
qed

lemma images_to_pdf_sim:
  assumes "same_canonical_files dir fs fs'" and "\<forall>p \<in> set ps. canonical dir p"
  shows "rel_sum (=) (same_canonical_files dir) (images_to_pdf ps out fs) (images_to_pdf ps out fs')"
proof -
  have "open_all fs ps = open_all fs' ps"
    using assms by (intro open_all_cong) (simp add: same_canonical_files_def)
  then show ?thesis
    using assms(1)
    by (auto simp add: images_to_pdf_def same_canonical_update split: sum.splits list.splits)
qed

lemma same_words:
  "list_all2 (same_but_native res) pgs pgs' \<Longrightarrow> map extract_words pgs' = map extract_words pgs"
  by (induction pgs pgs' rule: list_all2_induct) (simp_all add: same_but_native_def)

lemma same_canonical_refl: "same_canonical_files dir fs fs"
  by (simp add: same_canonical_files_def)

lemma annotate_sim:
  assumes "list_all2 (same_but_native (resolution opts)) pdf pdf'"
  shows "rel_sum (=) (result_rel (out_dir opts))
           (annotate_pdf_and_build_combined pdf query opts w)
           (annotate_pdf_and_build_combined pdf' query opts w)"
proof -
  let ?mbp = "group_by_page (find_matches_in_pdf (map extract_words pdf) query)"
  have sw: "map extract_words pdf' = map extract_words pdf" using assms by (rule same_words)
  have init: "state_rel (out_dir opts) ([], w) ([], w)" by (simp add: same_canonical_refl)
  have loop: "rel_sum (=) (state_rel (out_dir opts))
                (pages_loop opts ?mbp 0 pdf ([], w)) (pages_loop opts ?mbp 0 pdf' ([], w))"
    using assms init by (rule pages_loop_sim)
  show ?thesis
  proof (cases "pages_loop opts ?mbp 0 pdf ([], w)")
    case (Inl e)
    with loop have "pages_loop opts ?mbp 0 pdf' ([], w) = Inl e"
      by (cases "pages_loop opts ?mbp 0 pdf' ([], w)") simp_all
    with Inl show ?thesis by (simp add: annotate_pdf_and_build_combined_def sw)
  next
    case (Inr s1)
    obtain ch w1 where s1: "s1 = (ch, w1)" by (cases s1)
    from loop Inr s1 obtain w1' where l': "pages_loop opts ?mbp 0 pdf' ([], w) = Inr (ch, w1')"
      and fs: "same_canonical_files (out_dir opts) (files w1) (files w1')"
      and cv: "\<forall>v \<in> set (map snd ch). canonical (out_dir opts) v"
      by (cases "pages_loop opts ?mbp 0 pdf' ([], w)") auto
    show ?thesis
    proof (cases "ordered_images ch")
      case (Inl e)
      then show ?thesis using Inr s1 l' by (simp add: annotate_pdf_and_build_combined_def sw)
    next
      case oi: (Inr ordered)
      then have "set ordered \<subseteq> set (map snd ch)"
        unfolding ordered_images_def by (rule lookup_all_values)
      with cv have co: "\<forall>p \<in> set ordered. canonical (out_dir opts) p" by blast
      have i: "rel_sum (=) (same_canonical_files (out_dir opts))
                 (images_to_pdf ordered (combined_path (out_dir opts)) (files w1))
                 (images_to_pdf ordered (combined_path (out_dir opts)) (files w1'))"
        using fs co by (rule images_to_pdf_sim)
      show ?thesis
      proof (cases "ordered = []")
        case True
        then show ?thesis using Inr s1 l' oi fs
          by (simp add: annotate_pdf_and_build_combined_def sw)
      next
        case False
        then show ?thesis using Inr s1 l' oi i
          by (cases "images_to_pdf ordered (combined_path (out_dir opts)) (files w1)";
              cases "images_to_pdf ordered (combined_path (out_dir opts)) (files w1')")
             (simp_all add: annotate_pdf_and_build_combined_def sw)
      qed
    qed
  qed
qed

section \<open>Ordered aggregation\<close>

lemma lookup_all_present:
  "(\<And>k. k \<in> set ks \<Longrightarrow> map_of d k = Some (f k)) \<Longrightarrow> lookup_all d ks = Inr (map f ks)"
  by (induction ks) simp_all








section \<open>The sheet loop in closed form\<close>

lemma sheet_step_eq:
  "sheet_step opts query sh (gen, w) =
     (case sheet_raster opts query sh of
        Inl e \<Rightarrow> (gen, w\<lparr>log := log w @ [Error_rendering_sheet (sheet_name sh) e]\<rparr>)
      | Inr img \<Rightarrow> (gen @ [sheet_path (out_dir opts) (sheet_name sh)],
                    w\<lparr>files := (files w)(sheet_path (out_dir opts) (sheet_name sh) \<mapsto> Png img)\<rparr>))"
  by (simp add: sheet_raster_def draw_matches_on_image_def Let_def split: sum.splits prod.splits)

lemma sheets_loop_eq:
  "sheets_loop opts query shs (gen, w) =
     (gen @ map fst (rendered_sheets opts query shs),
      w\<lparr>files := write_all (files w) (rendered_sheets opts query shs),
        log := log w @ render_errors opts shs\<rparr>)"
proof (induction shs arbitrary: gen w)
  case Nil
  then show ?case by simp
next
  case (Cons sh rest)
  show ?case
  proof (cases "render_sheet_to_image sh (font_size opts)")
    case (Inl e)
    then have "sheet_raster opts query sh = Inl e" by (simp add: sheet_raster_def)
    then show ?thesis using Inl by (simp only: sheets_loop.simps sheet_step_eq) (simp add: Cons.IH)
  next
    case (Inr r)
    obtain img cb where r: "r = (img, cb)" by (cases r)
    let ?img = "cells_loop cb (stroke_color opts) (outline_width opts) img
                 (find_matches_in_sheet (ws_values sh) query)"
    have "sheet_raster opts query sh = Inr ?img" using Inr r by (simp add: sheet_raster_def)
    then show ?thesis using Inr by (simp only: sheets_loop.simps sheet_step_eq) (simp add: Cons.IH fun_upd_def)
  qed
qed






lemma excel_no_output:
  assumes "process_excel_file wb xlsx query opts w = ((imgs, combined, ann), w')" and "imgs = []"
  shows "combined = Some (combined_path (out_dir opts)) \<and> files w' = files w"
proof -
  from assms have "rendered_sheets opts query wb = []"
    by (auto simp add: process_excel_file_def sheets_loop_eq Let_def split: if_splits sum.splits)
  then show ?thesis using assms(1)
    by (auto simp add: process_excel_file_def sheets_loop_eq Let_def)
qed

section \<open>Skipped, forced and failing units\<close>

text \<open>
  Claim C2, amended. In the page-oriented pipeline, the loop step of a page with zero
  matches leaves the state unchanged when \<open>force_render\<close> is false (nothing is rasterised,
  saved or recorded); when \<open>force_render\<close> is true and the page rasterises and has
  non-zero dimensions, the step records exactly one new entry for the page, whose raster
  is saved as rasterised, with nothing drawn on it. The grid-oriented pipeline has no
  \<open>force_render\<close> option: the step of every sheet that renders appends exactly one raster,
  and for a sheet with zero matches that raster is saved as rendered.
\<close>

theorem no_match_skip:
  "(filter (\<lambda>m. m_page m = pnum) matches = [] \<and> \<not> force_render opts \<longrightarrow>
      page_step opts (group_by_page matches) pnum pg st = Inr st)
 \<and> (filter (\<lambda>m. m_page m = pnum) matches = [] \<and> force_render opts \<and>
      to_image pg (resolution opts) = Inr obj \<and> width pg \<noteq> 0 \<and> height pg \<noteq> 0 \<and>
      pnum \<notin> set (map fst chosen_images) \<longrightarrow>
      (\<exists>w'. page_step opts (group_by_page matches) pnum pg (chosen_images, w) =
               Inr (chosen_images @ [(pnum, fallback_path (out_dir opts) pnum)], w')
           \<and> files w' (fallback_path (out_dir opts) pnum) = Some (Png (original obj))))
 \<and> (render_sheet_to_image sh (font_size opts) = Inr (img, cell_boxes) \<longrightarrow>
      (\<exists>img'. sheet_step opts query sh (generated_images, w) =
         (generated_images @ [sheet_path (out_dir opts) (sheet_name sh)],
          w\<lparr>files := (files w)(sheet_path (out_dir opts) (sheet_name sh) \<mapsto> Png img')\<rparr>)
       \<and> (find_matches_in_sheet (ws_values sh) query = [] \<longrightarrow> img' = img)))"
proof (intro conjI impI)
  assume "filter (\<lambda>m. m_page m = pnum) matches = [] \<and> \<not> force_render opts"
  then show "page_step opts (group_by_page matches) pnum pg st = Inr st"
    by (simp add: page_step_skip dict_get_group)
next
  assume a: "filter (\<lambda>m. m_page m = pnum) matches = [] \<and> force_render opts \<and>
      to_image pg (resolution opts) = Inr obj \<and> width pg \<noteq> 0 \<and> height pg \<noteq> 0 \<and>
      pnum \<notin> set (map fst chosen_images)"
  have fresh: "k \<notin> set (map fst d) \<Longrightarrow> dict_set d k v = d @ [(k, v)]" for d :: chosen and k v
    by (induction d) auto
  let ?fp = "fallback_path (out_dir opts) pnum"
  let ?dp = "drawrect_path (out_dir opts) pnum"
  let ?w' = "w\<lparr>files := (files w)(?fp \<mapsto> Png (original obj), ?dp \<mapsto> Png (original obj))\<rparr>"
  have "page_step opts (group_by_page matches) pnum pg (chosen_images, w) =
          Inr (dict_set chosen_images pnum ?fp, ?w')"
    using a by (intro page_step_forced) (simp_all add: dict_get_group)
  moreover have "files ?w' ?fp = Some (Png (original obj))"
    using fallback_neq_drawrect[of "out_dir opts" pnum pnum] by simp
  ultimately show "\<exists>w'. page_step opts (group_by_page matches) pnum pg (chosen_images, w) =
               Inr (chosen_images @ [(pnum, ?fp)], w')
           \<and> files w' ?fp = Some (Png (original obj))"
    using a fresh[of pnum chosen_images ?fp] by auto
next
  assume r: "render_sheet_to_image sh (font_size opts) = Inr (img, cell_boxes)"
  let ?img' = "cells_loop cell_boxes (stroke_color opts) (outline_width opts) img
                 (find_matches_in_sheet (ws_values sh) query)"
  have "sheet_raster opts query sh = Inr ?img'" using r by (simp add: sheet_raster_def)
  then have "sheet_step opts query sh (generated_images, w) =
         (generated_images @ [sheet_path (out_dir opts) (sheet_name sh)],
          w\<lparr>files := (files w)(sheet_path (out_dir opts) (sheet_name sh) \<mapsto> Png ?img')\<rparr>)"
    by (simp only: sheet_step_eq) simp
  moreover have "find_matches_in_sheet (ws_values sh) query = [] \<longrightarrow> ?img' = img" by simp
  ultimately show "\<exists>img'. sheet_step opts query sh (generated_images, w) =
         (generated_images @ [sheet_path (out_dir opts) (sheet_name sh)],
          w\<lparr>files := (files w)(sheet_path (out_dir opts) (sheet_name sh) \<mapsto> Png img')\<rparr>)
       \<and> (find_matches_in_sheet (ws_values sh) query = [] \<longrightarrow> img' = img)"
    by blast
qed

text \<open>
  Claim C3, amended. When no unit produced a rendered raster, no combined artifact is
  written and nothing is raised: the page-oriented pipeline returns normally with its
  world unchanged, the grid-oriented one with its files unchanged. Both still return the
  path \<open>out_dir/annotated_combined.pdf\<close> for the combined artifact, never \<open>None\<close>. In
  particular a document without any match, processed without \<open>force_render\<close>, returns
  the empty list, that path and the unchanged world.
\<close>

theorem empty_aggregation:
  "(annotate_pdf_and_build_combined pdf query opts w = Inr ((ordered, combined), w') \<and> ordered = [] \<longrightarrow>
      combined = Some (combined_path (out_dir opts)) \<and> w' = w)
 \<and> (find_matches_in_pdf (map extract_words pdf) query = [] \<and> \<not> force_render opts \<longrightarrow>
      annotate_pdf_and_build_combined pdf query opts w =
        Inr (([], Some (combined_path (out_dir opts))), w))
 \<and> (process_excel_file wb xlsx query opts w = ((imgs, combined_x, ann), w_x) \<and> imgs = [] \<longrightarrow>
      combined_x = Some (combined_path (out_dir opts)) \<and> files w_x = files w)"
proof (intro conjI impI)
  assume a: "annotate_pdf_and_build_combined pdf query opts w = Inr ((ordered, combined), w') \<and> ordered = []"
  let ?mbp = "group_by_page (find_matches_in_pdf (map extract_words pdf) query)"
  from a obtain ch w1 where l: "pages_loop opts ?mbp 0 pdf ([], w) = Inr (ch, w1)"
    and o: "ordered_images ch = Inr []"
    by (auto simp add: annotate_pdf_and_build_combined_def Let_def split: sum.splits if_splits)
  from o have "ch = []" by (rule ordered_images_empty)
  with l have "w1 = w" using pages_loop_empty[of opts ?mbp 0 pdf "[]" w w1] by simp
  with a l o \<open>ch = []\<close> show "combined = Some (combined_path (out_dir opts))" and "w' = w"
    by (auto simp add: annotate_pdf_and_build_combined_def Let_def)
next
  assume a: "find_matches_in_pdf (map extract_words pdf) query = [] \<and> \<not> force_render opts"
  then have "pages_loop opts (group_by_page []) 0 pdf ([], w) = Inr ([], w)"
    by (intro pages_loop_all_skipped) (simp_all add: dict_get_group)
  then show "annotate_pdf_and_build_combined pdf query opts w =
        Inr (([], Some (combined_path (out_dir opts))), w)"
    using a by (simp add: annotate_pdf_and_build_combined_def ordered_images_def)
next
  assume a: "process_excel_file wb xlsx query opts w = ((imgs, combined_x, ann), w_x) \<and> imgs = []"
  then show "combined_x = Some (combined_path (out_dir opts))" and "files w_x = files w"
    using excel_no_output[of wb xlsx query opts w imgs combined_x ann w_x] by simp_all
qed




text \<open>
  Claim C8. Two runs on documents that differ only in the behaviour of the native drawing
  primitive end alike: both raise the same exception, or both return the same raster
  paths and combined path with the same content in every file other than the diagnostic
  \<open>drawrect\<close> outputs, among them every fallback raster and the combined document.
  \<open>draw_with_drawrect\<close> itself never raises; it changes no file but its own output
  path, and when the primitive raises it changes no file at all and logs the failure.
\<close>

theorem native_draw_frame:
  assumes "list_all2 (same_but_native (resolution opts)) pdf pdf'"
  shows "rel_sum (=) (result_rel (out_dir opts))
           (annotate_pdf_and_build_combined pdf query opts w)
           (annotate_pdf_and_build_combined pdf' query opts w)
       \<and> canonical (out_dir opts) (fallback_path (out_dir opts) n)
       \<and> canonical (out_dir opts) (combined_path (out_dir opts))
       \<and> (draw_with_drawrect obj rects p stroke sw w0 = (ok, w1) \<longrightarrow>
            (\<forall>q. q \<noteq> p \<longrightarrow> files w1 q = files w0 q) \<and>
            (\<not> ok \<longrightarrow> files w1 = files w0 \<and> (\<exists>e. log w1 = log w0 @ [Draw_rect_failed e])))"
  using annotate_sim[OF assms, of query w] canonical_fallback canonical_combined
    draw_with_drawrect_frame[of obj rects p stroke sw w0 ok w1]
    draw_with_drawrect_failure[of obj rects p stroke sw w0 w1]
  by auto

section \<open>The example documents evaluated\<close>

lemma find_matches_closed:
  "find_matches_in_pdf pgs query =
     concat (map (\<lambda>(i, ws). map (match_of_word i)
                    (filter (\<lambda>w. py_in (py_strip (py_lower query)) (py_lower (word_text w))) ws))
                 (enumerate 0 pgs))"
  by (simp add: find_matches_in_pdf_def scan_pages_eq)

lemma report_hit: "py_in (py_strip (py_lower query_report)) (py_lower (word_text word_report))"
  by (simp add: query_report_def word_report_def py_lower_def lower_cp_def py_strip_def
        py_isspace_def word_text_def py_in_def sublist_Cons_right)

lemma match_of_report: "match_of_word n word_report = match_report n"
  by (simp add: word_report_def match_report_def match_of_word_def word_text_def py_strip_def
        py_isspace_def)

lemma m_page_report: "m_page (match_report n) = n"
  by (simp add: match_report_def)

lemma fm1: "find_matches_in_pdf [[word_report]] query_report = [match_report 0]"
  by (simp add: find_matches_closed report_hit match_of_report)


lemma fm0: "find_matches_in_pdf [[]] query_report = []"
  by (simp add: find_matches_closed)

lemma draw_report:
  "draw_fallback raster_900 (600, 800) [match_report n] p ''red'' 1 fs = Inr (fs(p \<mapsto> Png raster_900_boxed))"
  by (simp add: draw_fallback_def raster_900_def raster_900_boxed_def match_report_def py_range_1
        rectangle_def py_int_def)

lemma path0: "fallback_path ''out'' 0 = ''out/page_0_annot_fallback.png''"
  "drawrect_path ''out'' 0 = ''out/page_0_annot_drawrect.png''"
  "combined_path ''out'' = ''out/annotated_combined.pdf''"
  by (simp_all add: fallback_path_def drawrect_path_def combined_path_def path_join_def str_nat_digit digit_char_def)

lemma step_report:
  assumes "dict_get mbp n = [match_report n]"
  shows "page_step example_options mbp n page_report (ch, w) =
     Inr (dict_set ch n (fallback_path ''out'' n),
          w\<lparr>files := (files w)(fallback_path ''out'' n \<mapsto> Png raster_900_boxed,
                                drawrect_path ''out'' n \<mapsto> Png raster_900)\<rparr>)"
  by (simp add: assms example_options_def page_report_def render_page_def
        rasterize_ok_def draw_report draw_with_drawrect_def never_raises_def Let_def)

lemma step_native_fails:
  assumes "dict_get mbp n = [match_report n]"
  shows "page_step example_options mbp n page_native_fails (ch, w) =
     Inr (dict_set ch n (fallback_path ''out'' n),
          w\<lparr>files := (files w)(fallback_path ''out'' n \<mapsto> Png raster_900_boxed),
            log := log w @ [Draw_rect_failed (CollaboratorError ''draw_rect'')]\<rparr>)"
  by (simp add: assms example_options_def page_native_fails_def render_page_def
        rasterize_native_fails_def draw_report draw_with_drawrect_def always_raises_def Let_def)



lemma example_words:
  "extract_words page_report = [word_report]"
  "extract_words page_unrenderable = [word_report]"
  "extract_words page_zero_width = [word_report]"
  "extract_words page_native_fails = [word_report]"
  "extract_words page_blank = []"
  by (simp_all add: page_report_def page_unrenderable_def page_zero_width_def
        page_native_fails_def page_blank_def)



lemma example_opts:
  "out_dir example_options = ''out''"
  "\<not> force_render example_options"
  "resolution example_options = 150"
  "outline_width example_options = 1"
  "stroke_color example_options = ''red''"
  "font_size example_options = 14"
  by (simp_all add: example_options_def)

lemma run_report:
  "annotate_pdf_and_build_combined [page_report] query_report example_options empty_world =
     Inr (([''out/page_0_annot_fallback.png''], Some ''out/annotated_combined.pdf''),
          \<lparr>files = [''out/page_0_annot_fallback.png'' \<mapsto> Png raster_900_boxed,
                    ''out/page_0_annot_drawrect.png'' \<mapsto> Png raster_900,
                    ''out/annotated_combined.pdf'' \<mapsto> Pdf [raster_900_boxed]],
           log = []\<rparr>)"
  by (simp add: annotate_pdf_and_build_combined_def example_words fm1 step_report
        dict_get_group m_page_report path0 ordered_images_def images_to_pdf_def image_open_def
        empty_world_def example_opts Let_def del: page_step.simps)

lemma run_native_fails:
  "annotate_pdf_and_build_combined [page_native_fails] query_report example_options empty_world =
     Inr (([''out/page_0_annot_fallback.png''], Some ''out/annotated_combined.pdf''),
          \<lparr>files = [''out/page_0_annot_fallback.png'' \<mapsto> Png raster_900_boxed,
                    ''out/annotated_combined.pdf'' \<mapsto> Pdf [raster_900_boxed]],
           log = [Draw_rect_failed (CollaboratorError ''draw_rect'')]\<rparr>)"
  by (simp add: annotate_pdf_and_build_combined_def example_words fm1 step_native_fails
        dict_get_group m_page_report path0 ordered_images_def images_to_pdf_def image_open_def
        empty_world_def example_opts Let_def del: page_step.simps)

text \<open>With no rendered unit the returned combined artifact is a path, not \<open>None\<close>, although
  no file exists at that path.\<close>

theorem no_output_counterexample:
  "annotate_pdf_and_build_combined [page_blank] query_report example_options empty_world =
     Inr (([], Some ''out/annotated_combined.pdf''), empty_world)"
  by (simp add: annotate_pdf_and_build_combined_def example_words fm0 dict_get_group
        ordered_images_def example_opts path0 Let_def)

lemma sheet_matches:
  "find_matches_in_sheet (ws_values sheet_a) query_report = [(1, 1)]"
  "find_matches_in_sheet (ws_values sheet_c) query_report = []"
  by (simp_all add: find_matches_in_sheet_def sheet_a_def sheet_c_def report_cell_def no_cells_def
        query_report_def py_lower_def lower_cp_def py_strip_def py_isspace_def py_in_def
        sublist_Cons_right)

lemma sheet_names:
  "sheet_name sheet_a = ''A''" "sheet_name sheet_b = ''B''" "sheet_name sheet_c = ''C''"
  by (simp_all add: sheet_a_def sheet_b_def sheet_c_def)

lemma sheet_renders:
  "render_sheet_to_image sheet_a fsz = Inr (grid_raster, grid_boxes)"
  "render_sheet_to_image sheet_b fsz = Inl (CollaboratorError ''render'')"
  "render_sheet_to_image sheet_c fsz = Inr (grid_raster, grid_boxes)"
  by (simp_all add: sheet_a_def sheet_b_def sheet_c_def render_grid_def render_raises_def)

lemma sheet_rasters:
  "sheet_raster example_options query_report sheet_a = Inr grid_raster_boxed"
  "sheet_raster example_options query_report sheet_b = Inl (CollaboratorError ''render'')"
  "sheet_raster example_options query_report sheet_c = Inr grid_raster"
  by (simp_all add: sheet_raster_def sheet_renders sheet_matches grid_boxes_def grid_raster_def
        grid_raster_boxed_def example_opts py_range_1 rectangle_def)

text \<open>A sheet with zero matches is rasterised all the same: the workbook with this one
  sheet yields one raster and a one-page combined document.\<close>

theorem sheet_always_rendered_counterexample:
  "find_matches_in_sheet (ws_values sheet_c) query_report = []
   \<and> process_excel_file [sheet_c] ''book.xlsx'' query_report example_options empty_world =
       (([''out/C_annot.png''], Some ''out/annotated_combined.pdf'', ''out/annotated_book.xlsx''),
        \<lparr>files = [''out/C_annot.png'' \<mapsto> Png grid_raster,
                  ''out/annotated_combined.pdf'' \<mapsto> Pdf [grid_raster]],
         log = []\<rparr>)"
  by (simp add: sheet_matches process_excel_file_def sheets_loop_eq sheet_rasters sheet_names
        sheet_renders example_opts sheet_path_def path_join_def combined_path_def
        images_to_pdf_def image_open_def empty_world_def Let_def)


text \<open>A page without words, with \<open>force_render\<close> false and true, and a sheet without
  matching cells.\<close>

theorem no_match_skip_witness:
  "page_step example_options (group_by_page []) 0 page_blank ([], empty_world) = Inr ([], empty_world)
   \<and> (\<exists>w'. page_step (example_options\<lparr>force_render := True\<rparr>) (group_by_page []) 0 page_blank
              ([], empty_world) = Inr ([(0, ''out/page_0_annot_fallback.png'')], w')
          \<and> files w' ''out/page_0_annot_fallback.png'' = Some (Png raster_900))
   \<and> sheet_step example_options query_report sheet_c ([], empty_world) =
       ([''out/C_annot.png''], \<lparr>files = [''out/C_annot.png'' \<mapsto> Png grid_raster], log = []\<rparr>)"
proof -
  let ?obj = "\<lparr>original = raster_900, draw_rect_raises = never_raises\<rparr>"
  let ?forced = "example_options\<lparr>force_render := True\<rparr>"
  note a = no_match_skip [of 0 "[]" example_options page_blank "([], empty_world)" ?obj "[]"
      empty_world sheet_c grid_raster grid_boxes query_report "[]"]
  note b = no_match_skip [of 0 "[]" ?forced page_blank "([], empty_world)" ?obj "[]"
      empty_world sheet_c grid_raster grid_boxes query_report "[]"]
  have h1: "filter (\<lambda>m. m_page m = 0) [] = [] \<and> \<not> force_render example_options"
    by (simp add: example_opts)
  have h2: "filter (\<lambda>m. m_page m = 0) [] = [] \<and> force_render ?forced \<and>
      to_image page_blank (resolution ?forced) = Inr ?obj \<and> width page_blank \<noteq> 0 \<and>
      height page_blank \<noteq> 0 \<and> 0 \<notin> set (map fst ([]::chosen))"
    by (simp add: page_blank_def rasterize_ok_def)
  have h3: "render_sheet_to_image sheet_c (font_size example_options) = Inr (grid_raster, grid_boxes)"
    by (simp add: sheet_renders)
  from a h1 have c1: "page_step example_options (group_by_page []) 0 page_blank ([], empty_world) =
      Inr ([], empty_world)" by blast
  from b h2 have c2: "\<exists>w'. page_step ?forced (group_by_page []) 0 page_blank ([], empty_world) =
      Inr ([] @ [(0, fallback_path (out_dir ?forced) 0)], w')
      \<and> files w' (fallback_path (out_dir ?forced) 0) = Some (Png (original ?obj))" by blast
  from a h3 obtain img' where s: "sheet_step example_options query_report sheet_c ([], empty_world) =
         ([] @ [sheet_path (out_dir example_options) (sheet_name sheet_c)],
          empty_world\<lparr>files := (files empty_world)
            (sheet_path (out_dir example_options) (sheet_name sheet_c) \<mapsto> Png img')\<rparr>)"
    and i: "find_matches_in_sheet (ws_values sheet_c) query_report = [] \<longrightarrow> img' = grid_raster"
    by blast
  from i have "img' = grid_raster" by (simp add: sheet_matches)
  with s have c3: "sheet_step example_options query_report sheet_c ([], empty_world) =
       ([''out/C_annot.png''], \<lparr>files = [''out/C_annot.png'' \<mapsto> Png grid_raster], log = []\<rparr>)"
    by (simp add: example_opts sheet_names sheet_path_def path_join_def empty_world_def
          del: sheet_step.simps)
  from c2 have c2': "\<exists>w'. page_step ?forced (group_by_page []) 0 page_blank ([], empty_world) =
      Inr ([(0, ''out/page_0_annot_fallback.png'')], w')
      \<and> files w' ''out/page_0_annot_fallback.png'' = Some (Png raster_900)"
    by (simp add: example_options_def path0 del: page_step.simps)
  from c1 c2' c3 show ?thesis by blast
qed

text \<open>A one-page document without words, and a workbook whose only sheet fails to render.\<close>

theorem empty_aggregation_witness:
  "find_matches_in_pdf (map extract_words [page_blank]) query_report = []
   \<and> \<not> force_render example_options
   \<and> annotate_pdf_and_build_combined [page_blank] query_report example_options empty_world =
       Inr (([], Some ''out/annotated_combined.pdf''), empty_world)
   \<and> process_excel_file [sheet_b] ''book.xlsx'' query_report example_options empty_world =
       (([], Some ''out/annotated_combined.pdf'', ''out/annotated_book.xlsx''),
        \<lparr>files = Map.empty, log = [Error_rendering_sheet ''B'' (CollaboratorError ''render'')]\<rparr>)"
proof -
  let ?w = "\<lparr>files = Map.empty, log = [Error_rendering_sheet ''B'' (CollaboratorError ''render'')]\<rparr>"
  have h: "find_matches_in_pdf (map extract_words [page_blank]) query_report = []
           \<and> \<not> force_render example_options"
    by (simp add: example_words fm0 example_opts)
  have x: "process_excel_file [sheet_b] ''book.xlsx'' query_report example_options empty_world =
       (([], Some ''out/annotated_combined.pdf'', ''out/annotated_book.xlsx''), ?w)"
    by (simp add: process_excel_file_def sheets_loop_eq sheet_rasters sheet_names
        sheet_renders example_opts path_join_def combined_path_def empty_world_def Let_def)
  note t = empty_aggregation [of "[page_blank]" query_report example_options empty_world
      "[]" "Some ''out/annotated_combined.pdf''" empty_world
      "[sheet_b]" "''book.xlsx''" "[]" "Some ''out/annotated_combined.pdf''"
      "''out/annotated_book.xlsx''" ?w]
  from t h have "annotate_pdf_and_build_combined [page_blank] query_report example_options empty_world =
        Inr (([], Some (combined_path (out_dir example_options))), empty_world)" by blast
  then have "annotate_pdf_and_build_combined [page_blank] query_report example_options empty_world =
       Inr (([], Some ''out/annotated_combined.pdf''), empty_world)"
    by (simp add: example_opts path0)
  with h x show ?thesis by blast
qed


text \<open>The example page with a native primitive that works and with one that always
  raises.\<close>

theorem native_draw_frame_witness:
  "list_all2 (same_but_native (resolution example_options)) [page_report] [page_native_fails]
   \<and> annotate_pdf_and_build_combined [page_report] query_report example_options empty_world =
       Inr (([''out/page_0_annot_fallback.png''], Some ''out/annotated_combined.pdf''),
            \<lparr>files = [''out/page_0_annot_fallback.png'' \<mapsto> Png raster_900_boxed,
                      ''out/page_0_annot_drawrect.png'' \<mapsto> Png raster_900,
                      ''out/annotated_combined.pdf'' \<mapsto> Pdf [raster_900_boxed]],
             log = []\<rparr>)
   \<and> annotate_pdf_and_build_combined [page_native_fails] query_report example_options empty_world =
       Inr (([''out/page_0_annot_fallback.png''], Some ''out/annotated_combined.pdf''),
            \<lparr>files = [''out/page_0_annot_fallback.png'' \<mapsto> Png raster_900_boxed,
                      ''out/annotated_combined.pdf'' \<mapsto> Pdf [raster_900_boxed]],
             log = [Draw_rect_failed (CollaboratorError ''draw_rect'')]\<rparr>)
   \<and> rel_sum (=) (result_rel (out_dir example_options))
        (annotate_pdf_and_build_combined [page_report] query_report example_options empty_world)
        (annotate_pdf_and_build_combined [page_native_fails] query_report example_options empty_world)
   \<and> draw_with_drawrect \<lparr>original = raster_900, draw_rect_raises = always_raises\<rparr> [match_report 0]
        ''out/page_0_annot_drawrect.png'' ''red'' 1 empty_world =
       (False, \<lparr>files = Map.empty, log = [Draw_rect_failed (CollaboratorError ''draw_rect'')]\<rparr>)"
proof -
  have h: "list_all2 (same_but_native (resolution example_options)) [page_report] [page_native_fails]"
    by (simp add: same_but_native_def page_report_def page_native_fails_def rasterize_ok_def
          rasterize_native_fails_def)
  have d: "draw_with_drawrect \<lparr>original = raster_900, draw_rect_raises = always_raises\<rparr> [match_report 0]
        ''out/page_0_annot_drawrect.png'' ''red'' 1 empty_world =
       (False, \<lparr>files = Map.empty, log = [Draw_rect_failed (CollaboratorError ''draw_rect'')]\<rparr>)"
    by (simp add: draw_with_drawrect_def always_raises_def empty_world_def)
  note t = native_draw_frame [OF h, of query_report empty_world 0
      "\<lparr>original = raster_900, draw_rect_raises = always_raises\<rparr>" "[match_report 0]"
      "''out/page_0_annot_drawrect.png''" "''red''" 1 empty_world False
      "\<lparr>files = Map.empty, log = [Draw_rect_failed (CollaboratorError ''draw_rect'')]\<rparr>"]
  from t have r: "rel_sum (=) (result_rel (out_dir example_options))
        (annotate_pdf_and_build_combined [page_report] query_report example_options empty_world)
        (annotate_pdf_and_build_combined [page_native_fails] query_report example_options empty_world)"
    by blast
  from h r d run_report run_native_fails show ?thesis by blast
qed

end
